theory Spec2Isabelle
  imports Main "HOL-Library.Sublist"
begin

section \<open>The WeasyPrint navigator: data model\<close>

text \<open>
  The module \<^verbatim>\<open>weasyprint/navigator.py\<close> walks the box tree of every rendered page,
  collects the link and anchor regions, and assembles one HTML document out of the page
  images and these regions.

  Text and byte strings are both \<^typ>\<open>string\<close>. Coordinates and page sizes are Python
  integers, hence \<^typ>\<open>int\<close>.
\<close>

type_synonym bytes = string

text \<open>The tuple returned by \<^verbatim>\<open>box.hit_area()\<close>: x, y, width, height.\<close>

type_synonym area = "int \<times> int \<times> int \<times> int"

text \<open>
  The two computed style properties the navigator reads. \<^verbatim>\<open>style.link\<close> is
  \<^verbatim>\<open>None\<close> or a pair (type, href); \<^verbatim>\<open>style.anchor\<close> is \<^verbatim>\<open>None\<close> or a name.
\<close>

record style =
  link :: "(string \<times> string) option"
  anchor :: "string option"

text \<open>
  Modelled from the spec: the box classes of \<^verbatim>\<open>weasyprint.formatting_structure.boxes\<close>
  are not part of the source file. The navigator tells boxes apart with
  \<^verbatim>\<open>isinstance(box, boxes.TextBox)\<close> and \<^verbatim>\<open>isinstance(box, boxes.ParentBox)\<close>: a text box is a
  leaf, a parent box owns an ordered list of children, and every other box (a replaced
  box, say) is a leaf that is not a text box. Each box has a style and a hit area.
\<close>

datatype box =
    TextBox (style: style) (hit_area: area)
  | ParentBox (style: style) (hit_area: area) (children: "box list")
  | ReplacedBox (style: style) (hit_area: area)

text \<open>\<^verbatim>\<open>(href,) + box.hit_area()\<close> and \<^verbatim>\<open>(anchor,) + box.hit_area()\<close>.\<close>

type_synonym link_record = "string \<times> int \<times> int \<times> int \<times> int"
type_synonym anchor_record = "string \<times> int \<times> int \<times> int \<times> int"

text \<open>
  Python's truth value of a string that may be \<^verbatim>\<open>None\<close>: both \<^verbatim>\<open>None\<close> and the empty
  string are false. It is the test behind \<^verbatim>\<open>if anchor:\<close>, \<^verbatim>\<open>if url:\<close> and
  \<^verbatim>\<open>if query_string:\<close>.
\<close>

fun truthy :: "string option \<Rightarrow> bool" where
  "truthy None = False"
| "truthy (Some s) = (s \<noteq> [])"

section \<open>Extraction of links and anchors\<close>

text \<open>
  \<^verbatim>\<open>find_links(box, links, anchors)\<close> appends to the two lists it is given; the model
  takes the pair of lists and returns the extended pair. The loop over the children
  threads the pair through the recursive calls in order.
\<close>

function find_links ::
  "box \<Rightarrow> link_record list \<times> anchor_record list \<Rightarrow> link_record list \<times> anchor_record list"
where
  "find_links box (links, anchors) =
    (let links1 = (case link (style box) of
            Some (type_, href) \<Rightarrow>
              if \<not> is_TextBox box
              then links @ [(if type_ = ''internal'' then ''#'' @ href else ''/view/'' @ href,
                             hit_area box)]
              else links
          | None \<Rightarrow> links);
         anchors1 = (case anchor (style box) of
            Some name \<Rightarrow> if name \<noteq> [] then anchors @ [(name, hit_area box)] else anchors
          | None \<Rightarrow> anchors)
     in if is_ParentBox box then fold find_links (children box) (links1, anchors1)
        else (links1, anchors1))"
  by pat_completeness auto
termination
proof (relation "measure (\<lambda>(b, _). size b)")
  show "wf (measure (\<lambda>(b, _). size b))"
    by simp
next
  fix box :: box and links :: "link_record list" and anchors :: "anchor_record list"
    and links1 anchors1 child acc
  assume "is_ParentBox box" and "child \<in> set (children box)"
  then have "size child < size box"
    by (cases box) (auto simp: less_Suc_eq_le size_list_estimation')
  then show "((child, acc), box, links, anchors) \<in> measure (\<lambda>(b, _). size b)"
    by simp
qed

declare find_links.simps [simp del]

section \<open>Rendering pages\<close>

subsection \<open>Base64 as the standard library encodes it\<close>

text \<open>
  \<^verbatim>\<open>base64.encodestring\<close> belongs to Python's standard library: it cuts the input into
  pieces of 57 bytes and encodes each with \<^verbatim>\<open>binascii.b2a_base64\<close>, which pads the last
  group with \<^verbatim>\<open>=\<close> and ends its output with a newline.
\<close>

definition b64_alphabet :: string where
  "b64_alphabet = ''ABCDEFGHIJKLMNOPQRSTUVWXYZabcdefghijklmnopqrstuvwxyz0123456789+/''"

definition b64_char :: "nat \<Rightarrow> char" where
  "b64_char i = b64_alphabet ! i"

fun b64_groups :: "nat list \<Rightarrow> string" where
  "b64_groups [] = []"
| "b64_groups [a] = [b64_char (a div 4), b64_char (a mod 4 * 16), CHR ''='', CHR ''='']"
| "b64_groups [a, b] =
     [b64_char (a div 4), b64_char (a mod 4 * 16 + b div 16), b64_char (b mod 16 * 4), CHR ''='']"
| "b64_groups (a # b # c # rest) =
     [b64_char (a div 4), b64_char (a mod 4 * 16 + b div 16),
      b64_char (b mod 16 * 4 + c div 64), b64_char (c mod 64)] @ b64_groups rest"

definition b2a_base64 :: "bytes \<Rightarrow> string" where
  "b2a_base64 s = b64_groups (map of_char s) @ ''\<newline>''"

function encodestring :: "bytes \<Rightarrow> string" where
  "encodestring s = (if s = [] then [] else b2a_base64 (take 57 s) @ encodestring (drop 57 s))"
  by pat_completeness auto
termination
  by (relation "measure length") auto

declare encodestring.simps [simp del]

text \<open>\<^verbatim>\<open>.replace('\n', '')\<close>: every newline is dropped.\<close>

definition remove_newlines :: "string \<Rightarrow> string" where
  "remove_newlines s = filter (\<lambda>c. c \<noteq> CHR ''\<newline>'') s"

subsection \<open>The external renderer\<close>

text \<open>\<^verbatim>\<open>CSS(string=...)\<close>: a stylesheet is known by the text it was parsed from.\<close>

datatype css = CSS string

definition STYLESHEET :: css where
  "STYLESHEET = CSS (''\<newline>'' @ ''   :root { font-size: 10pt }\<newline>'')"

text \<open>
  One rendered page as the renderer reports it (width, height, PNG bytes), and the
  \<^verbatim>\<open>Page\<close> tuple that \<^verbatim>\<open>get_pages\<close> yields: width, height, data URL, links, anchors.
\<close>

type_synonym png_page = "int \<times> int \<times> bytes"
type_synonym page = "int \<times> int \<times> string \<times> link_record list \<times> anchor_record list"

text \<open>
  Modelled from the spec: the class \<^verbatim>\<open>weasyprint.HTML\<close> is not part of the source file.
  The navigator uses three things of an \<^verbatim>\<open>HTML\<close> object: its \<^verbatim>\<open>base_url\<close>, the method
  \<^verbatim>\<open>write_pdf(stylesheets=...)\<close>, and the method \<^verbatim>\<open>get_png_pages(stylesheets,
  _with_document=True)\<close>, which returns the document (here the list of its page boxes,
  \<^verbatim>\<open>document.pages\<close>) and the enumeration of the PNG pages. The object is a record of
  these; the constructor \<^verbatim>\<open>HTML(url)\<close> is a parameter of the functions that call it.
  A renderer that raises is outside the model.
\<close>

record html =
  base_url :: string
  write_pdf :: "css list \<Rightarrow> bytes"
  get_png_pages :: "css list \<Rightarrow> box list \<times> png_page list"

text \<open>
  \<^verbatim>\<open>get_pages\<close> is a generator over \<^verbatim>\<open>izip(document.pages, png_pages)\<close>; the model returns
  the list of everything it yields. \<^verbatim>\<open>.decode('ascii')\<close> leaves the characters of a
  base64 text as they are.
\<close>

definition get_pages :: "html \<Rightarrow> page list" where
  "get_pages html =
    (let (document, png_pages) = get_png_pages html [STYLESHEET]
     in map (\<lambda>(page, (width, height, png_bytes)).
          let (links, anchors) = find_links page ([], []);
              data_url = ''data:image/png;base64,'' @ remove_newlines (encodestring png_bytes)
          in (width, height, data_url, links, anchors))
        (zip document png_pages))"

section \<open>Assembling the HTML document\<close>

text \<open>\<^verbatim>\<open>'{0}'.format(n)\<close> for a Python integer: its decimal digits, with a sign when negative.\<close>

fun str_nat :: "nat \<Rightarrow> string" where
  "str_nat n = (if n < 10 then [''0123456789'' ! n]
                else str_nat (n div 10) @ [''0123456789'' ! (n mod 10)])"

declare str_nat.simps [simp del]

definition str_int :: "int \<Rightarrow> string" where
  "str_int i = (if i < 0 then ''-'' @ str_nat (nat (- i)) else str_nat (nat i))"

text \<open>
  \<^verbatim>\<open>.encode('utf8')\<close>. A character of a text is a code point below 256: below 128 it is
  one byte, from 128 on it is the two bytes \<^verbatim>\<open>110000xx 10xxxxxx\<close>.
\<close>

fun utf8_char :: "char \<Rightarrow> bytes" where
  "utf8_char (Char b0 b1 b2 b3 b4 b5 b6 b7) =
     (if b7 then [Char b6 True False False False False True True,
                  Char b0 b1 b2 b3 b4 b5 False True]
      else [Char b0 b1 b2 b3 b4 b5 b6 b7])"

definition encode_utf8 :: "string \<Rightarrow> bytes" where
  "encode_utf8 s = concat (map utf8_char s)"

text \<open>The first element of \<^verbatim>\<open>parts\<close>: everything up to the value of the URL field.\<close>

definition template_head :: string where
  \<open>template_head =
     ''<!doctype html>\<newline>'' @
     ''<meta charset=utf-8>\<newline>'' @
     ''<title>WeasyPrint Navigator</title>\<newline>'' @
     ''<style>\<newline>'' @
     ''  form { position: fixed; z-index: 1; top: 8px; left: 16px; right: 0; }\<newline>'' @
     ''  input { font: 24px/30px sans-serif }\<newline>'' @
     ''  input:not([type]) { background: rgba(255, 255, 255, .9); border-width: 2px;\<newline>'' @
     ''                      border-radius: 6px; padding: 0 3px }\<newline>'' @
     ''  input:not([type]):focus { outline: none }\<newline>'' @
     ''  body { margin-top: 0; padding-top: 50px }\<newline>'' @
     ''  section { box-shadow: 0 0 10px 2px #aaa; margin: 25px; position: relative }\<newline>'' @
     ''  section a { position: absolute; display: block }\<newline>'' @
     ''  section a[href]:hover, a[href]:focus { outline: 1px dotted }\<newline>'' @
     ''</style>\<newline>'' @
     ''<body onload="var u=document.forms[0].url; u.value || u.focus()">\<newline>'' @
     ''<form action="/" onsubmit="\<newline>'' @
     ''  window.location.href = '/view/' + this.url.value; return false;">\<newline>'' @
     ''<input name=url style="width: 80%" placeholder="Enter an URL to start"\<newline>'' @
     ''  value="''\<close>

text \<open>The overlay written for one link record and for one anchor record.\<close>

fun link_element :: "link_record \<Rightarrow> string" where
  \<open>link_element (href, pos_x, pos_y, width, height) =
     ''  <a style="left: '' @ str_int pos_x @ ''px; top: '' @ str_int pos_y @ ''px; '' @
     ''width: '' @ str_int width @ ''px; height: '' @ str_int height @ ''px" href="'' @ href @
     ''"></a>\<newline>''\<close>

fun anchor_element :: "anchor_record \<Rightarrow> string" where
  \<open>anchor_element (name, pos_x, pos_y, width, height) =
     ''  <a style="left: '' @ str_int pos_x @ ''px; top: '' @ str_int (pos_y - 60) @
     ''px;" name="'' @ name @ ''"></a>\<newline>''\<close>

text \<open>The strings written for one page: the body of the loop over \<^verbatim>\<open>get_pages(html)\<close>.\<close>

fun page_parts :: "page \<Rightarrow> string list" where
  \<open>page_parts (width, height, data_url, links, anchors) =
     [''<section style="width: '' @ str_int width @ ''px; height: '' @ str_int height @
      ''px">\<newline>'' @ ''  <img src="'' @ data_url @ ''">\<newline>'']
     @ map link_element links
     @ map anchor_element anchors
     @ [''</section>\<newline>'']\<close>

text \<open>
  \<^verbatim>\<open>render_template(url)\<close>. The URL is tested three times. When the first test
  succeeds the name is rebound to \<^verbatim>\<open>html.base_url\<close>, which the later tests read; when
  it fails nothing rebinds the name, so the later tests fail as well.
\<close>

definition render_template :: "(string \<Rightarrow> html) \<Rightarrow> string option \<Rightarrow> bytes" where
  \<open>render_template HTML url =
    (let parts = [template_head] in
     case (if truthy url then url else None) of
       Some u \<Rightarrow>
         (let html = HTML u;
              url = base_url html;
              parts = parts @ [url];
              parts = parts @ [''" />\<newline><input type=submit value=Go />\<newline>''];
              parts = (if url \<noteq> [] then parts @ [''<a href="/pdf/'', url, ''">PDF</a>\<newline>'']
                       else parts);
              parts = parts @ [''</form>\<newline>''];
              parts = (if url \<noteq> [] then parts @ concat (map page_parts (get_pages html))
                       else parts)
          in encode_utf8 (concat parts))
     | None \<Rightarrow>
         (let parts = parts @ [''" />\<newline><input type=submit value=Go />\<newline>''];
              parts = parts @ [''</form>\<newline>'']
          in encode_utf8 (concat parts)))\<close>

section \<open>URLs and requests\<close>

text \<open>
  Modelled from the spec: \<^verbatim>\<open>weasyprint.urls.url_is_absolute\<close> is not part of the source
  file. A URL is absolute when it has a recognized scheme: a letter, then letters,
  digits, \<^verbatim>\<open>+\<close>, \<^verbatim>\<open>-\<close> or \<^verbatim>\<open>.\<close>, then a colon.
\<close>

definition is_alpha :: "char \<Rightarrow> bool" where
  "is_alpha c = (c \<in> set ''abcdefghijklmnopqrstuvwxyzABCDEFGHIJKLMNOPQRSTUVWXYZ'')"

definition is_scheme_char :: "char \<Rightarrow> bool" where
  "is_scheme_char c = (is_alpha c \<or> c \<in> set ''0123456789+-.'')"

definition url_is_absolute :: "string \<Rightarrow> bool" where
  "url_is_absolute url =
     (case url of
        [] \<Rightarrow> False
      | c # cs \<Rightarrow> is_alpha c \<and>
          (case dropWhile is_scheme_char cs of [] \<Rightarrow> False | d # _ \<Rightarrow> d = CHR '':''))"

text \<open>\<^verbatim>\<open>normalize_url(url, query_string=None)\<close>; falling off the end returns \<^verbatim>\<open>None\<close>.\<close>

definition normalize_url :: "string option \<Rightarrow> string option \<Rightarrow> string option" where
  "normalize_url url query_string =
    (case (if truthy url then url else None) of
       Some url \<Rightarrow>
         (let url = (case (if truthy query_string then query_string else None) of
                       Some q \<Rightarrow> url @ ''?'' @ q
                     | None \<Rightarrow> url);
              url = (if \<not> url_is_absolute url then ''http://'' @ url else url)
          in Some url)
     | None \<Rightarrow> None)"





section \<open>The nodes a traversal visits\<close>

text \<open>
  The boxes of a tree in pre-order (document order): the box itself, then the nodes of
  each child of a parent box, children taken left to right.
\<close>

fun nodes :: "box \<Rightarrow> box list" where
  "nodes (TextBox s a) = [TextBox s a]"
| "nodes (ParentBox s a cs) = ParentBox s a cs # concat (map nodes cs)"
| "nodes (ReplacedBox s a) = [ReplacedBox s a]"

text \<open>The target a link value navigates to.\<close>

fun link_target :: "string \<times> string \<Rightarrow> string" where
  "link_target (type', href) = (if type' = ''internal'' then ''#'' @ href else ''/view/'' @ href)"

text \<open>A node registers a link when it has a link value and is not a text box.\<close>

definition registers_link :: "box \<Rightarrow> bool" where
  "registers_link b = (link (style b) \<noteq> None \<and> \<not> is_TextBox b)"

definition link_record_of :: "box \<Rightarrow> link_record" where
  "link_record_of b = (link_target (the (link (style b))), hit_area b)"

text \<open>A node's anchor style is present when \<^verbatim>\<open>if anchor:\<close> holds.\<close>

definition anchor_present :: "box \<Rightarrow> bool" where
  "anchor_present b = truthy (anchor (style b))"

definition anchor_record_of :: "box \<Rightarrow> anchor_record" where
  "anchor_record_of b = (the (anchor (style b)), hit_area b)"

text \<open>What one visit of a box adds, before the children are looked at.\<close>

definition own_links :: "box \<Rightarrow> link_record list" where
  "own_links b = (if registers_link b then [link_record_of b] else [])"

definition own_anchors :: "box \<Rightarrow> anchor_record list" where
  "own_anchors b = (if anchor_present b then [anchor_record_of b] else [])"

section \<open>Example inputs\<close>

text \<open>A container whose link style is inherited by its two text boxes.\<close>

definition example_link_style :: style where
  "example_link_style = \<lparr>link = Some (''external'', ''http://a.org/''), anchor = None\<rparr>"

definition example_container :: box where
  "example_container =
     ParentBox example_link_style (10, 20, 100, 30)
       [TextBox example_link_style (10, 20, 40, 30), TextBox example_link_style (50, 20, 60, 30)]"

text \<open>A renderer that reports two page boxes but one PNG page.\<close>

definition example_plain_style :: style where
  "example_plain_style = \<lparr>link = None, anchor = None\<rparr>"

definition example_empty_page :: box where
  "example_empty_page = ParentBox example_plain_style (0, 0, 100, 200) []"

definition example_write_pdf :: "css list \<Rightarrow> bytes" where
  "example_write_pdf stylesheets = ''%PDF''"

definition mismatch_png_pages :: "css list \<Rightarrow> box list \<times> png_page list" where
  "mismatch_png_pages stylesheets =
     ([example_empty_page, example_empty_page], [(100, 200, ''abc'')])"

definition mismatch_html :: html where
  "mismatch_html =
     \<lparr>base_url = ''http://a.org/'', write_pdf = example_write_pdf,
      get_png_pages = mismatch_png_pages\<rparr>"

text \<open>
  A one-page document with an internal link to \<^verbatim>\<open>#sec1\<close> in a container at
  (10, 20, 100, 30) and an anchor named \<^verbatim>\<open>sec1\<close> at (0, 200, 50, 10).
\<close>

definition sec1_link_style :: style where
  "sec1_link_style = \<lparr>link = Some (''internal'', ''sec1''), anchor = None\<rparr>"

definition sec1_anchor_style :: style where
  "sec1_anchor_style = \<lparr>link = None, anchor = Some ''sec1''\<rparr>"

definition sec1_page :: box where
  "sec1_page =
     ParentBox example_plain_style (0, 0, 100, 300)
       [ParentBox sec1_link_style (10, 20, 100, 30) [TextBox sec1_link_style (10, 20, 100, 30)],
        ParentBox sec1_anchor_style (0, 200, 50, 10) []]"

definition sec1_png_pages :: "css list \<Rightarrow> box list \<times> png_page list" where
  "sec1_png_pages stylesheets = ([sec1_page], [(100, 300, ''abc'')])"

definition sec1_HTML :: "string \<Rightarrow> html" where
  "sec1_HTML url =
     \<lparr>base_url = url, write_pdf = example_write_pdf, get_png_pages = sec1_png_pages\<rparr>"

text \<open>A PNG page of 58 bytes, which \<^verbatim>\<open>encodestring\<close> breaks into two lines.\<close>

definition two_line_png_pages :: "css list \<Rightarrow> box list \<times> png_page list" where
  "two_line_png_pages stylesheets =
     ([example_empty_page],
      [(100, 200, ''aaaaaaaaaaaaaaaaaaaaaaaaaaaaaaaaaaaaaaaaaaaaaaaaaaaaaaaaab'')])"

definition two_line_html :: html where
  "two_line_html =
     \<lparr>base_url = ''http://a.org/'', write_pdf = example_write_pdf,
      get_png_pages = two_line_png_pages\<rparr>"








text \<open>The document expected for an absent URL: the head, the empty URL field, the end of the form.\<close>

definition bare_form_document :: string where
  \<open>bare_form_document =
     template_head @ ''" />\<newline><input type=submit value=Go />\<newline>'' @ ''</form>\<newline>''\<close>

section \<open>Properties of the extraction\<close>

lemma find_links_unfold:
  "find_links b (ls, as) =
     (if is_ParentBox b then fold find_links (children b) (ls @ own_links b, as @ own_anchors b)
      else (ls @ own_links b, as @ own_anchors b))"
  by (cases "anchor (style b)")
    (auto simp add: find_links.simps [of b ls as] own_links_def own_anchors_def
      registers_link_def link_record_of_def anchor_present_def anchor_record_of_def Let_def
      split: option.splits prod.splits)

lemma fold_find_links:
  assumes "\<And>c ls as. c \<in> set cs \<Longrightarrow> find_links c (ls, as) = (ls @ L c, as @ A c)"
  shows "fold find_links cs (ls, as) = (ls @ concat (map L cs), as @ concat (map A cs))"
  using assms by (induction cs arbitrary: ls as) simp_all

lemma find_links_nodes:
  "find_links b (ls, as) =
     (ls @ map link_record_of (filter registers_link (nodes b)),
      as @ map anchor_record_of (filter anchor_present (nodes b)))"
proof (induction b arbitrary: ls as)
  case (TextBox s a)
  show ?case
    by (simp add: find_links_unfold own_links_def own_anchors_def)
next
  case (ReplacedBox s a)
  show ?case
    by (simp add: find_links_unfold own_links_def own_anchors_def)
next
  case (ParentBox s a cs)
  let ?p = "ParentBox s a cs"
  let ?L = "\<lambda>c. map link_record_of (filter registers_link (nodes c))"
  let ?A = "\<lambda>c. map anchor_record_of (filter anchor_present (nodes c))"
  have step: "fold find_links cs (ls', as') = (ls' @ concat (map ?L cs), as' @ concat (map ?A cs))"
    for ls' as'
    by (rule fold_find_links) (rule ParentBox.IH)
  have flat: "concat (map ?L cs) = map link_record_of (filter registers_link (concat (map nodes cs)))"
    "concat (map ?A cs) = map anchor_record_of (filter anchor_present (concat (map nodes cs)))"
    by (simp_all add: filter_concat map_concat comp_def)
  show ?case
    by (simp add: find_links_unfold [of ?p] step flat own_links_def own_anchors_def)
qed

lemma anchor_present_iff:
  "anchor (style b) \<noteq> Some [] \<Longrightarrow> anchor_present b \<longleftrightarrow> anchor (style b) \<noteq> None"
  by (cases "anchor (style b)") (simp_all add: anchor_present_def)

text \<open>
  C3. The number of anchor records that the extraction adds equals the number of nodes
  of the tree whose anchor style is present (the test \<^verbatim>\<open>if anchor:\<close> of the code: a name
  that is not empty), whatever the depth and shape of the tree and whatever the kind of
  the node.
\<close>

theorem find_links_anchor_count:
  "length (snd (find_links box (links, anchors)))
     = length anchors + length (filter anchor_present (nodes box))"
  by (simp add: find_links_nodes)

lemma find_links_fst:
  "fst (find_links b (ls, as)) = ls @ map link_record_of (filter registers_link (nodes b))"
  by (simp add: find_links_nodes)

lemma text_children_register_nothing:
  "\<forall>c \<in> set cs. is_TextBox c \<Longrightarrow> filter registers_link (concat (map nodes cs)) = []"
proof (induction cs)
  case Nil
  show ?case by simp
next
  case (Cons c cs)
  then obtain s a where "c = TextBox s a"
    by (cases c) auto
  with Cons show ?case
    by (simp add: registers_link_def)
qed

text \<open>
  C2. When a link style is set on a parent box whose children are all text boxes, the
  extraction adds exactly one link record, that of the parent box, and none for the
  text boxes. A text box adds no link record at all; in general the link records added
  are those of the visited nodes that have a link value and are not text boxes, in
  document order.
\<close>

theorem find_links_container_link:
  "(link s = Some l \<and> (\<forall>c \<in> set cs. is_TextBox c) \<longrightarrow>
      fst (find_links (ParentBox s a cs) (links, anchors)) = links @ [(link_target l, a)])
   \<and> fst (find_links (TextBox s a) (links, anchors)) = links
   \<and> fst (find_links box (links, anchors))
       = links @ map link_record_of (filter registers_link (nodes box))"
  by (simp add: find_links_fst text_children_register_nothing registers_link_def
      link_record_of_def)

theorem find_links_container_link_witness:
  "link example_link_style = Some (''external'', ''http://a.org/'')
   \<and> list_all is_TextBox [TextBox example_link_style (10, 20, 40, 30),
                           TextBox example_link_style (50, 20, 60, 30)]
   \<and> fst (find_links example_container ([], [])) = [(''/view/http://a.org/'', 10, 20, 100, 30)]"
  using find_links_container_link [of example_link_style "(''external'', ''http://a.org/'')"
      "[TextBox example_link_style (10, 20, 40, 30), TextBox example_link_style (50, 20, 60, 30)]"
      "(10, 20, 100, 30)" "[]" "[]"]
  by (simp add: example_container_def example_link_style_def registers_link_def
      link_record_of_def)

lemma link_record_forms:
  assumes "registers_link n"
  shows "\<exists>type' href. \<not> is_TextBox n \<and> link (style n) = Some (type', href)
           \<and> snd (link_record_of n) = hit_area n
           \<and> (type' = ''internal'' \<longrightarrow> fst (link_record_of n) = ''#'' @ href)
           \<and> (type' \<noteq> ''internal'' \<longrightarrow> fst (link_record_of n) = ''/view/'' @ href)"
  using assms by (auto simp: registers_link_def link_record_of_def)

lemma one_form_only:
  "(type' = ''internal'' \<longrightarrow> t = ''#'' @ href) \<and> (type' \<noteq> ''internal'' \<longrightarrow> t = ''/view/'' @ href)
   \<Longrightarrow> (\<exists>h. t = ''#'' @ h) \<noteq> (\<exists>h. t = ''/view/'' @ h)"
  by (cases "type' = ''internal''") auto

text \<open>
  C4. Every link record that the extraction adds comes from a node that is not a text
  box and has a link value (type, href); its target is \<^verbatim>\<open>#\<close> followed by href when the type
  is \<^verbatim>\<open>internal\<close>, and \<^verbatim>\<open>/view/\<close> followed by href for every other type. A target has
  exactly one of the two forms.
\<close>

theorem find_links_target_forms:
  assumes "r \<in> set (fst (find_links box (links, anchors)))"
  shows "r \<in> set links \<or>
     ((\<exists>n \<in> set (nodes box). \<exists>type' href.
         \<not> is_TextBox n \<and> link (style n) = Some (type', href) \<and> snd r = hit_area n
         \<and> (type' = ''internal'' \<longrightarrow> fst r = ''#'' @ href)
         \<and> (type' \<noteq> ''internal'' \<longrightarrow> fst r = ''/view/'' @ href))
      \<and> ((\<exists>h. fst r = ''#'' @ h) \<noteq> (\<exists>h. fst r = ''/view/'' @ h)))"
proof (cases "r \<in> set links")
  case True
  then show ?thesis by simp
next
  case False
  with assms obtain n where n: "n \<in> set (nodes box)" "registers_link n" "r = link_record_of n"
    by (auto simp: find_links_fst)
  from link_record_forms [OF n(2)] obtain type' href where
    f: "\<not> is_TextBox n" "link (style n) = Some (type', href)" "snd r = hit_area n"
       "(type' = ''internal'' \<longrightarrow> fst r = ''#'' @ href)"
       "(type' \<noteq> ''internal'' \<longrightarrow> fst r = ''/view/'' @ href)"
    unfolding n(3) by blast
  have "(\<exists>h. fst r = ''#'' @ h) \<noteq> (\<exists>h. fst r = ''/view/'' @ h)"
    by (rule one_form_only) (use f in blast)
  with n(1) f show ?thesis by blast
qed

theorem find_links_target_forms_witness:
  "(''/view/http://a.org/'', 10, 20, 100, 30) \<in> set (fst (find_links example_container ([], [])))
   \<and> ((\<exists>n \<in> set (nodes example_container). \<exists>type' href.
         \<not> is_TextBox n \<and> link (style n) = Some (type', href)
         \<and> snd (''/view/http://a.org/'', 10, 20, 100, 30) = hit_area n
         \<and> (type' = ''internal'' \<longrightarrow> fst (''/view/http://a.org/'', 10::int, 20::int, 100::int, 30::int) = ''#'' @ href)
         \<and> (type' \<noteq> ''internal'' \<longrightarrow> fst (''/view/http://a.org/'', 10::int, 20::int, 100::int, 30::int) = ''/view/'' @ href))
      \<and> ((\<exists>h. fst (''/view/http://a.org/'', 10::int, 20::int, 100::int, 30::int) = ''#'' @ h)
           \<noteq> (\<exists>h. fst (''/view/http://a.org/'', 10::int, 20::int, 100::int, 30::int) = ''/view/'' @ h)))"
proof -
  have h: "(''/view/http://a.org/'', 10, 20, 100, 30)
             \<in> set (fst (find_links example_container ([], [])))"
    by (simp add: find_links_fst example_container_def example_link_style_def
        registers_link_def link_record_of_def)
  from find_links_target_forms [OF h] h show ?thesis
    by simp
qed

section \<open>Properties of the URL normalization\<close>

text \<open>
  C10. For an absent URL and for the empty URL the normalization returns \<^verbatim>\<open>None\<close>,
  whatever the query string is.
\<close>

theorem normalize_url_empty:
  "normalize_url None query_string = None \<and> normalize_url (Some []) query_string = None"
  by (simp add: normalize_url_def)

lemma example_com_relative: "\<not> url_is_absolute ''example.com''"
  by (simp add: url_is_absolute_def is_alpha_def is_scheme_char_def)
lemma x_com_absolute: "url_is_absolute ''http://x.com?a=1''"
  by (simp add: url_is_absolute_def is_alpha_def is_scheme_char_def)
lemma y_com_absolute: "url_is_absolute ''https://y.com''"
  by (simp add: url_is_absolute_def is_alpha_def is_scheme_char_def)

text \<open>
  C5. The four examples of the normalization, and the rule for a non-empty URL: a query
  string that is given and not empty is appended after \<^verbatim>\<open>?\<close>, and then \<^verbatim>\<open>http://\<close> is
  put in front exactly when the resulting string is not absolute.
\<close>

theorem normalize_url_rules:
  "normalize_url (Some []) None = None
   \<and> normalize_url (Some ''example.com'') None = Some ''http://example.com''
   \<and> normalize_url (Some ''http://x.com'') (Some ''a=1'') = Some ''http://x.com?a=1''
   \<and> normalize_url (Some ''https://y.com'') None = Some ''https://y.com''
   \<and> (url \<noteq> [] \<longrightarrow>
        normalize_url (Some url) None = 
          Some (if url_is_absolute url then url else ''http://'' @ url)
        \<and> normalize_url (Some url) (Some []) = 
          Some (if url_is_absolute url then url else ''http://'' @ url)
        \<and> (q \<noteq> [] \<longrightarrow> normalize_url (Some url) (Some q) =
          Some (if url_is_absolute (url @ ''?'' @ q) then url @ ''?'' @ q
                else ''http://'' @ url @ ''?'' @ q)))"
  using example_com_relative x_com_absolute y_com_absolute by (simp add: normalize_url_def)

theorem normalize_url_rules_witness:
  "''example.com/a'' \<noteq> [] \<and> ''b=2'' \<noteq> []
   \<and> normalize_url (Some ''example.com/a'') (Some ''b=2'') = Some ''http://example.com/a?b=2''
   \<and> normalize_url (Some ''example.com/a'') None = Some ''http://example.com/a''"
  using normalize_url_rules [of "''example.com/a''" "''b=2''"]
  by (simp add: url_is_absolute_def is_alpha_def is_scheme_char_def)

section \<open>Properties of the page sequence\<close>

lemma get_pages_zip:
  assumes "get_png_pages html [STYLESHEET] = (document, png_pages)"
  shows "get_pages html =
     map (\<lambda>(page, (width, height, png_bytes)).
            (width, height,
             ''data:image/png;base64,'' @ remove_newlines (encodestring png_bytes),
             find_links page ([], [])))
       (zip document png_pages)"
  using assms by (simp add: get_pages_def Let_def split_def)

lemma b2a_small: "encodestring ''abc'' = ''YWJj\<newline>''"
  by (simp add: encodestring.simps b2a_base64_def b64_char_def b64_alphabet_def)

text \<open>
  C1, as the claim states it, fails: with two page boxes and one PNG page no error is
  raised, and one page is yielded.
\<close>

theorem get_pages_mismatch_counterexample:
  "length (fst (get_png_pages mismatch_html [STYLESHEET])) = 2
   \<and> length (snd (get_png_pages mismatch_html [STYLESHEET])) = 1
   \<and> get_pages mismatch_html = [(100, 200, ''data:image/png;base64,YWJj'', [], [])]"
  by (simp add: get_pages_def mismatch_html_def mismatch_png_pages_def b2a_small
      remove_newlines_def example_empty_page_def example_plain_style_def find_links.simps)

text \<open>
  C1, as the code has it. \<^verbatim>\<open>get_pages\<close> pairs the page boxes with the PNG pages index
  by index and stops with the shorter of the two enumerations: it yields as many pages
  as the shorter one has, each built from the page box and the PNG page at its index.
\<close>

theorem get_pages_pairs_shorter:
  assumes "get_png_pages html [STYLESHEET] = (document, png_pages)"
  shows "length (get_pages html) = min (length document) (length png_pages)
     \<and> (\<forall>i < length (get_pages html). \<exists>width height png_bytes data_url.
           png_pages ! i = (width, height, png_bytes)
           \<and> get_pages html ! i = (width, height, data_url, find_links (document ! i) ([], [])))"
proof -
  have len: "length (get_pages html) = min (length document) (length png_pages)"
    by (simp add: get_pages_zip [OF assms])
  have "\<exists>width height png_bytes data_url.
           png_pages ! i = (width, height, png_bytes)
           \<and> get_pages html ! i = (width, height, data_url, find_links (document ! i) ([], []))"
    if "i < length (get_pages html)" for i
  proof -
    obtain width height png_bytes where p: "png_pages ! i = (width, height, png_bytes)"
      by (cases "png_pages ! i") auto
    from that len have "i < length document" "i < length png_pages"
      by simp_all
    with p show ?thesis
      by (simp add: get_pages_zip [OF assms])
  qed
  with len show ?thesis
    by blast
qed

theorem get_pages_pairs_shorter_witness:
  "get_png_pages mismatch_html [STYLESHEET]
     = ([example_empty_page, example_empty_page], [(100, 200, ''abc'')])
   \<and> length (get_pages mismatch_html) = 1"
  using get_pages_pairs_shorter [of mismatch_html "[example_empty_page, example_empty_page]"
      "[(100, 200, ''abc'')]"]
  by (simp add: mismatch_html_def mismatch_png_pages_def)

lemma b64_alphabet_length: "length b64_alphabet = 64"
  by (simp add: b64_alphabet_def)

lemma b64_char_plain: "i < 64 \<Longrightarrow> b64_char i \<noteq> CHR ''\<newline>''"
proof -
  assume "i < 64"
  then have "b64_char i \<in> set b64_alphabet"
    by (simp add: b64_char_def b64_alphabet_length)
  moreover have "CHR ''\<newline>'' \<notin> set b64_alphabet"
    by (simp add: b64_alphabet_def)
  ultimately show ?thesis
    by auto
qed

lemma b64_groups_plain:
  "\<forall>a \<in> set xs. a < 256 \<Longrightarrow> CHR ''\<newline>'' \<notin> set (b64_groups xs)"
proof (induction xs rule: b64_groups.induct)
  case 1
  show ?case by simp
next
  case (2 a)
  then have "a < 256" by simp
  then have "a div 4 < 64" "a mod 4 * 16 < 64"
    by arith+
  then show ?case
    using b64_char_plain by (simp add: eq_commute [of "CHR ''\<newline>''"])
next
  case (3 a b)
  then have "a < 256" "b < 256" by simp_all
  then have "a div 4 < 64" "a mod 4 * 16 + b div 16 < 64" "b mod 16 * 4 < 64"
    by arith+
  then show ?case
    using b64_char_plain by (simp add: eq_commute [of "CHR ''\<newline>''"])
next
  case (4 a b c rest)
  then have "a < 256" "b < 256" "c < 256" by simp_all
  then have "a div 4 < 64" "a mod 4 * 16 + b div 16 < 64" "b mod 16 * 4 + c div 64 < 64"
    "c mod 64 < 64"
    by arith+
  with 4 show ?case
    using b64_char_plain by (simp add: eq_commute [of "CHR ''\<newline>''"])
qed

lemma b64_groups_append:
  "length xs mod 3 = 0 \<Longrightarrow> b64_groups (xs @ ys) = b64_groups xs @ b64_groups ys"
  by (induction xs rule: b64_groups.induct) simp_all

lemma of_char_byte: "\<forall>a \<in> set (map of_char (s :: string)). a < (256 :: nat)"
  by simp

lemma remove_newlines_b2a:
  "remove_newlines (b2a_base64 s) = b64_groups (map of_char s)"
  using b64_groups_plain [OF of_char_byte, of s]
  by (auto simp add: remove_newlines_def b2a_base64_def filter_id_conv)

lemma remove_newlines_append:
  "remove_newlines (xs @ ys) = remove_newlines xs @ remove_newlines ys"
  by (simp add: remove_newlines_def)

lemma remove_newlines_encodestring:
  "remove_newlines (encodestring s) = b64_groups (map of_char s)"
proof (induction s rule: encodestring.induct)
  case (1 s)
  show ?case
  proof (cases "s = []")
    case True
    then show ?thesis
      by (simp add: encodestring.simps [of "[]"] remove_newlines_def)
  next
    case False
    note ne = this
    have unfold: "remove_newlines (encodestring s)
        = b64_groups (map of_char (take 57 s)) @ b64_groups (map of_char (drop 57 s))"
      using ne 1 by (simp add: encodestring.simps [of s] remove_newlines_append remove_newlines_b2a)
    show ?thesis
    proof (cases "57 \<le> length s")
      case True
      then have "length (map of_char (take 57 s) :: nat list) mod 3 = 0"
        by (simp add: min_def)
      from b64_groups_append [OF this, of "map of_char (drop 57 s)"]
      have "b64_groups (map of_char (take 57 s)) @ b64_groups (map of_char (drop 57 s))
          = b64_groups (map of_char (take 57 s @ drop 57 s))"
        by (simp del: append_take_drop_id)
      with unfold show ?thesis
        by (simp only: append_take_drop_id)
    next
      case False
      with unfold show ?thesis
        by simp
    qed
  qed
qed

lemma remove_newlines_plain: "CHR ''\<newline>'' \<notin> set (remove_newlines s)"
  by (simp add: remove_newlines_def)

text \<open>
  C9. The data URL of every page is \<^verbatim>\<open>data:image/png;base64,\<close> followed by the output of
  \<^verbatim>\<open>encodestring\<close> on the PNG bytes of that page with the newlines removed, which is the
  base64 text of the bytes in one piece; the data URL contains no newline.
\<close>

theorem get_pages_data_url:
  assumes "get_png_pages html [STYLESHEET] = (document, png_pages)"
    and "i < length (get_pages html)"
    and "png_pages ! i = (width, height, png_bytes)"
  shows "\<exists>links anchors.
       get_pages html ! i =
         (width, height,
          ''data:image/png;base64,'' @ remove_newlines (encodestring png_bytes), links, anchors)
     \<and> remove_newlines (encodestring png_bytes) = b64_groups (map of_char png_bytes)
     \<and> CHR ''\<newline>''
          \<notin> set (''data:image/png;base64,'' @ remove_newlines (encodestring png_bytes))"
proof -
  from assms(2) have "i < length document" "i < length png_pages"
    by (simp_all add: get_pages_zip [OF assms(1)])
  with assms(3) have "get_pages html ! i =
      (width, height, ''data:image/png;base64,'' @ remove_newlines (encodestring png_bytes),
       find_links (document ! i) ([], []))"
    by (simp add: get_pages_zip [OF assms(1)])
  moreover have "CHR ''\<newline>''
      \<notin> set (''data:image/png;base64,'' @ remove_newlines (encodestring png_bytes))"
    by (simp add: remove_newlines_plain)
  ultimately show ?thesis
    by (cases "find_links (document ! i) ([], [])")
      (simp add: remove_newlines_encodestring [symmetric])
qed

lemma two_line_encoded:
  "encodestring ''aaaaaaaaaaaaaaaaaaaaaaaaaaaaaaaaaaaaaaaaaaaaaaaaaaaaaaaaab'' =
     ''YWFhYWFhYWFhYWFhYWFhYWFhYWFhYWFhYWFhYWFhYWFhYWFhYWFhYWFhYWFhYWFhYWFhYWFhYWFh\<newline>Yg==\<newline>''"
  by (simp add: encodestring.simps b2a_base64_def b64_char_def b64_alphabet_def)

theorem get_pages_data_url_witness:
  "get_png_pages two_line_html [STYLESHEET] =
     ([example_empty_page],
      [(100, 200, ''aaaaaaaaaaaaaaaaaaaaaaaaaaaaaaaaaaaaaaaaaaaaaaaaaaaaaaaaab'')])
   \<and> 0 < length (get_pages two_line_html)
   \<and> (\<exists>links anchors. get_pages two_line_html ! 0 =
        (100, 200,
         ''data:image/png;base64,YWFhYWFhYWFhYWFhYWFhYWFhYWFhYWFhYWFhYWFhYWFhYWFhYWFhYWFhYWFhYWFhYWFhYWFhYWFhYg=='',
         links, anchors))"
proof -
  have g: "get_png_pages two_line_html [STYLESHEET] =
     ([example_empty_page],
      [(100, 200, ''aaaaaaaaaaaaaaaaaaaaaaaaaaaaaaaaaaaaaaaaaaaaaaaaaaaaaaaaab'')])"
    by (simp add: two_line_html_def two_line_png_pages_def)
  have l: "0 < length (get_pages two_line_html)"
    by (simp add: get_pages_zip [OF g])
  have r: "remove_newlines (encodestring ''aaaaaaaaaaaaaaaaaaaaaaaaaaaaaaaaaaaaaaaaaaaaaaaaaaaaaaaaab'')
      = ''YWFhYWFhYWFhYWFhYWFhYWFhYWFhYWFhYWFhYWFhYWFhYWFhYWFhYWFhYWFhYWFhYWFhYWFhYWFhYg==''"
    by (simp add: two_line_encoded remove_newlines_def)
  from get_pages_data_url [OF g l, of 100 200
      "''aaaaaaaaaaaaaaaaaaaaaaaaaaaaaaaaaaaaaaaaaaaaaaaaaaaaaaaaab''"]
  have "\<exists>links anchors. get_pages two_line_html ! 0 =
        (100, 200,
         ''data:image/png;base64,'' @ remove_newlines (encodestring ''aaaaaaaaaaaaaaaaaaaaaaaaaaaaaaaaaaaaaaaaaaaaaaaaaaaaaaaaab''),
         links, anchors)"
    by auto
  with g l show ?thesis
    unfolding r by simp
qed

section \<open>Properties of the assembled document\<close>

lemma sublist_concat_member: "x \<in> set xs \<Longrightarrow> sublist x (concat xs)"
proof -
  assume "x \<in> set xs"
  then obtain ys zs where "xs = ys @ x # zs"
    by (auto dest: split_list)
  then have "concat xs = concat ys @ x @ concat zs"
    by simp
  then show ?thesis
    by (simp only: sublist_appendI)
qed

lemma encode_utf8_append: "encode_utf8 (xs @ ys) = encode_utf8 xs @ encode_utf8 ys"
  by (simp add: encode_utf8_def)

lemma utf8_char_ascii: "\<not> digit7 c \<Longrightarrow> utf8_char c = [c]"
  by (cases c) simp

lemma encode_utf8_ascii: "list_all (\<lambda>c. \<not> digit7 c) s \<Longrightarrow> encode_utf8 s = s"
  by (induction s) (simp_all add: encode_utf8_def utf8_char_ascii)


lemma sublist_encode_utf8:
  assumes "sublist a b"
  shows "sublist (encode_utf8 a) (encode_utf8 b)"
proof -
  from assms obtain ps ss where "b = ps @ a @ ss"
    by (auto simp: sublist_def)
  then show ?thesis
    by (simp add: encode_utf8_append)
qed

lemma render_template_with_pages:
  assumes "url \<noteq> []" and "base_url (HTML url) \<noteq> []"
  shows \<open>render_template HTML (Some url) =
     encode_utf8 (template_head @ base_url (HTML url)
       @ ''" />\<newline><input type=submit value=Go />\<newline>''
       @ ''<a href="/pdf/'' @ base_url (HTML url) @ ''">PDF</a>\<newline>''
       @ ''</form>\<newline>''
       @ concat (concat (map page_parts (get_pages (HTML url)))))\<close>
  using assms by (simp add: render_template_def Let_def)

text \<open>
  C6. For every anchor record (name, x, y, width, height) of every page, the assembled
  document contains the element \<^verbatim>\<open><a style="left: x px; top: (y - 60) px;" name=...>\<close>:
  the top coordinate is the record's y minus 60.
\<close>

theorem render_template_anchor_offset:
  assumes "url \<noteq> []" and "base_url (HTML url) \<noteq> []"
    and "(width, height, data_url, links, anchors) \<in> set (get_pages (HTML url))"
    and "(name, pos_x, pos_y, w, h) \<in> set anchors"
  shows \<open>sublist
     (encode_utf8 (''  <a style="left: '' @ str_int pos_x @ ''px; top: '' @ str_int (pos_y - 60)
        @ ''px;" name="'' @ name @ ''"></a>\<newline>''))
     (render_template HTML (Some url))\<close>
proof -
  let ?elt = "anchor_element (name, pos_x, pos_y, w, h)"
  let ?page = "(width, height, data_url, links, anchors)"
  have "?elt \<in> set (page_parts ?page)"
    using assms(4) by (simp del: anchor_element.simps)
  with assms(3) have "?elt \<in> set (concat (map page_parts (get_pages (HTML url))))"
    by (auto simp del: anchor_element.simps page_parts.simps)
  then have "sublist ?elt (concat (concat (map page_parts (get_pages (HTML url)))))"
    by (rule sublist_concat_member)
  then obtain ps ss where
    "concat (concat (map page_parts (get_pages (HTML url)))) = ps @ ?elt @ ss"
    by (auto simp: sublist_def)
  then have "sublist (encode_utf8 ?elt) (render_template HTML (Some url))"
    unfolding render_template_with_pages [of url HTML, OF assms(1,2)]
    by (simp only: encode_utf8_append sublist_def) (metis append.assoc)
  then show ?thesis
    by simp
qed

lemma sec1_pages:
  "get_pages (sec1_HTML u) =
     [(100, 300, ''data:image/png;base64,YWJj'', [(''#sec1'', 10, 20, 100, 30)],
       [(''sec1'', 0, 200, 50, 10)])]"
  by (simp add: get_pages_def sec1_HTML_def sec1_png_pages_def b2a_small remove_newlines_def
      sec1_page_def example_plain_style_def sec1_link_style_def sec1_anchor_style_def
      find_links.simps)

theorem render_template_anchor_offset_witness:
  \<open>''http://a.org/'' \<noteq> [] \<and> base_url (sec1_HTML ''http://a.org/'') \<noteq> []
   \<and> (100, 300, ''data:image/png;base64,YWJj'', [(''#sec1'', 10, 20, 100, 30)],
        [(''sec1'', 0, 200, 50, 10)]) \<in> set (get_pages (sec1_HTML ''http://a.org/''))
   \<and> sublist ''  <a style="left: 0px; top: 140px;" name="sec1"></a>\<newline>''
        (render_template sec1_HTML (Some ''http://a.org/''))\<close>
proof -
  have b: "base_url (sec1_HTML ''http://a.org/'') \<noteq> []"
    by (simp add: sec1_HTML_def)
  have p: "(100, 300, ''data:image/png;base64,YWJj'', [(''#sec1'', 10, 20, 100, 30)],
        [(''sec1'', 0, 200, 50, 10)]) \<in> set (get_pages (sec1_HTML ''http://a.org/''))"
    by (simp add: sec1_pages)
  have e: \<open>encode_utf8 (''  <a style="left: '' @ str_int 0 @ ''px; top: '' @ str_int (200 - 60)
        @ ''px;" name="'' @ ''sec1'' @ ''"></a>\<newline>'')
      = ''  <a style="left: 0px; top: 140px;" name="sec1"></a>\<newline>''\<close>
    by (simp add: encode_utf8_def str_int_def str_nat.simps)
  from render_template_anchor_offset [of "''http://a.org/''" sec1_HTML 100 300
      "''data:image/png;base64,YWJj''" "[(''#sec1'', 10, 20, 100, 30)]"
      "[(''sec1'', 0, 200, 50, 10)]" "''sec1''" 0 200 50 10, OF _ b p]
  have "sublist ''  <a style=\"left: 0px; top: 140px;\" name=\"sec1\"></a>\<newline>''
        (render_template sec1_HTML (Some ''http://a.org/''))"
    unfolding e by simp
  with b p show ?thesis
    by simp
qed

section \<open>The stylesheet of the two rendering paths\<close>









section \<open>The document for an absent URL\<close>

lemma bare_form_ascii: "list_all (\<lambda>c. \<not> digit7 c) bare_form_document"
  by (simp add: bare_form_document_def template_head_def)

lemma render_template_None: "render_template HTML None = bare_form_document"
proof -
  have "render_template HTML None = encode_utf8 bare_form_document"
    by (simp add: render_template_def bare_form_document_def)
  then show ?thesis
    by (simp add: encode_utf8_ascii [OF bare_form_ascii])
qed

lemma no_section: \<open>\<not> sublist ''<section'' bare_form_document\<close>
  by (simp add: bare_form_document_def template_head_def sublist_code)

lemma no_img: \<open>\<not> sublist ''<img'' bare_form_document\<close>
  by (simp add: bare_form_document_def template_head_def sublist_code)

lemma no_pdf: \<open>\<not> sublist ''/pdf/'' bare_form_document\<close>
  by (simp add: bare_form_document_def template_head_def sublist_code)

lemma no_PDF: \<open>\<not> sublist ''PDF'' bare_form_document\<close>
  by (simp add: bare_form_document_def template_head_def sublist_code)

lemma has_form: \<open>sublist ''<form action="/" onsubmit="'' bare_form_document\<close>
  by (simp add: bare_form_document_def template_head_def sublist_code)

lemma has_empty_value:
  \<open>sublist ''<input name=url style="width: 80%" placeholder="Enter an URL to start"\<newline>  value="" />'' bare_form_document\<close>
  by (simp add: bare_form_document_def template_head_def sublist_code)

lemma has_focus:
  \<open>sublist ''<body onload="var u=document.forms[0].url; u.value || u.focus()">'' bare_form_document\<close>
  by (simp add: bare_form_document_def template_head_def sublist_code)

lemma bare_ends: \<open>prefix ''<!doctype html>'' bare_form_document \<and> suffix ''</form>\<newline>'' bare_form_document\<close>
  by (simp add: bare_form_document_def template_head_def suffix_def)

text \<open>
  C8. For an absent URL the assembled document is the UTF-8 encoding of the head, the
  empty URL field and the end of the form. It starts with the doctype, contains the
  navigation form with an empty value, the script that gives the field the focus, and
  ends with the form; it contains no section, no image and no PDF link.
\<close>

theorem render_template_no_url:
  \<open>render_template HTML None =
     encode_utf8 (template_head @ ''" />\<newline><input type=submit value=Go />\<newline>''
       @ ''</form>\<newline>'')
   \<and> render_template HTML None = bare_form_document
   \<and> prefix ''<!doctype html>'' (render_template HTML None)
   \<and> sublist ''<form action="/" onsubmit="'' (render_template HTML None)
   \<and> sublist ''<input name=url style="width: 80%" placeholder="Enter an URL to start"\<newline>  value="" />''
        (render_template HTML None)
   \<and> sublist ''<body onload="var u=document.forms[0].url; u.value || u.focus()">''
        (render_template HTML None)
   \<and> suffix ''</form>\<newline>'' (render_template HTML None)
   \<and> \<not> sublist ''<section'' (render_template HTML None)
   \<and> \<not> sublist ''<img'' (render_template HTML None)
   \<and> \<not> sublist ''/pdf/'' (render_template HTML None)
   \<and> \<not> sublist ''PDF'' (render_template HTML None)\<close>
proof -
  have e: \<open>render_template HTML None =
     encode_utf8 (template_head @ ''" />\<newline><input type=submit value=Go />\<newline>''
       @ ''</form>\<newline>'')\<close>
    by (simp add: render_template_def)
  show ?thesis
    using e no_section no_img no_pdf no_PDF has_form has_empty_value has_focus bare_ends
    by (simp only: render_template_None simp_thms)
qed

end
